theory Spec2Isabelle
  imports Complex_Main "HOL-Library.Sublist"
begin

section \<open>Strings and POSIX path names\<close>

text \<open>
  \<^verbatim>\<open>font_converter.py\<close> handles URLs and path names as Python \<^verbatim>\<open>str\<close> values and
  file contents as \<^verbatim>\<open>bytes\<close>.  Both are lists of characters here.  A character is
  one byte, so the model reads every string as ASCII text: \<open>lower\<close> changes the letters
  \<open>A\<close> to \<open>Z\<close> and nothing else.
\<close>

type_synonym bytes = "char list"

text \<open>\<^verbatim>\<open>s.rfind(c)\<close>: the index of the last occurrence of \<open>c\<close>, or \<open>-1\<close>.\<close>

definition rfind :: "string \<Rightarrow> char \<Rightarrow> int" where
  "rfind s c =
     (if c \<in> set s
      then int (length s) - 1 - int (length (takeWhile (\<lambda>x. x \<noteq> c) (rev s)))
      else - 1)"

text \<open>\<^verbatim>\<open>s[i:j]\<close> and \<^verbatim>\<open>s[i:]\<close> for indices that are not negative.\<close>

definition slice :: "string \<Rightarrow> int \<Rightarrow> int \<Rightarrow> string" where
  "slice s i j = take (nat j - nat i) (drop (nat i) s)"

definition slice_from :: "string \<Rightarrow> int \<Rightarrow> string" where
  "slice_from s i = drop (nat i) s"

text \<open>\<^verbatim>\<open>s.split(c)[0]\<close>: the text before the first \<open>c\<close>, all of \<open>s\<close> when there is none.\<close>

definition split_first :: "string \<Rightarrow> char \<Rightarrow> string" where
  "split_first s c = takeWhile (\<lambda>x. x \<noteq> c) s"




text \<open>
  \<^verbatim>\<open>os.path.basename\<close> of \<^verbatim>\<open>posixpath\<close>:
  \<^verbatim>\<open>i = p.rfind('/') + 1; return p[i:]\<close>.
\<close>

definition basename :: "string \<Rightarrow> string" where
  "basename p = slice_from p (rfind p (CHR ''/'') + 1)"

text \<open>
  \<^verbatim>\<open>os.path.splitext\<close> of \<^verbatim>\<open>posixpath\<close> (\<^verbatim>\<open>genericpath._splitext\<close> with
  separator \<open>/\<close> and extension separator \<open>.\<close>).  The library's loop walks from the
  first character of the file name to the last dot and splits at that dot as soon as it
  meets a character that is not a dot; \<open>skip_leading_dots\<close> is that loop over the
  slice between the two indices.
\<close>

fun skip_leading_dots :: "string \<Rightarrow> bool" where
  "skip_leading_dots [] = False"
| "skip_leading_dots (c # cs) = (if c \<noteq> CHR ''.'' then True else skip_leading_dots cs)"

definition splitext :: "string \<Rightarrow> string \<times> string" where
  "splitext p =
     (let sepIndex = rfind p (CHR ''/'');
          dotIndex = rfind p (CHR ''.'')
      in if dotIndex > sepIndex \<and> skip_leading_dots (slice p (sepIndex + 1) dotIndex)
         then (slice p 0 dotIndex, slice_from p dotIndex)
         else (p, []))"

text \<open>
  \<^verbatim>\<open>os.path.join(a, b)\<close> of \<^verbatim>\<open>posixpath\<close>: an absolute \<open>b\<close> replaces \<open>a\<close>;
  otherwise the two are put together with one separator between them.
\<close>

definition join :: "string \<Rightarrow> string \<Rightarrow> string" where
  "join a b =
     (if b \<noteq> [] \<and> hd b = CHR ''/'' then b
      else if a = [] \<or> last a = CHR ''/'' then a @ b
      else a @ ''/'' @ b)"

section \<open>The converter's file-name functions\<close>


text \<open>
  Line 106 of \<^verbatim>\<open>main\<close>:
  \<^verbatim>\<open>input_filename = os.path.basename(args.url).split('?')[0]\<close>.
\<close>

definition input_filename :: "string \<Rightarrow> string" where
  "input_filename url = split_first (basename url) (CHR ''?'')"

text \<open>
  The name section 4.1 of the specification describes: the query string is stripped
  from the URL, and the last path segment of what remains is the name.
\<close>

definition spec_local_name :: "string \<Rightarrow> string" where
  "spec_local_name url = basename (split_first url (CHR ''?''))"

section \<open>Exceptions and the file system\<close>

text \<open>
  Every exception the script can meet is a value.  A library call that can raise returns
  \<open>exn + 'a\<close>, with \<open>Inl\<close> for the exception.
\<close>

datatype exn =
    RequestException
  | HTTPError
  | ChunkedEncodingError
  | FileNotFoundError
  | NotADirectoryError
  | IsADirectoryError
  | FileExistsError
  | OSError
  | TTLibError
  | ZeroDivisionError

text \<open>
  The file system is a tree without links, without permissions and without limits on
  space or on the length of names: a node is a directory or a regular file, found under
  its absolute location (the names from the root down).  An operation fails only for
  what the tree is (a directory that is missing, a directory where a file is needed, a
  file where a directory is needed).  The process has a working directory, which the
  script never changes.
\<close>

type_synonym location = "string list"

datatype node = Dir | File bytes

record filesystem =
  nodes :: "location \<Rightarrow> node option"
  cwd :: location

text \<open>\<^verbatim>\<open>p.split('/')\<close>: the components of a path name, empty ones included.\<close>

fun split_sep :: "string \<Rightarrow> string list" where
  "split_sep [] = [[]]"
| "split_sep (c # cs) =
     (if c = CHR ''/'' then [] # split_sep cs
      else (case split_sep cs of [] \<Rightarrow> [[c]] | x # xs \<Rightarrow> (c # x) # xs))"

text \<open>
  Path name resolution as POSIX does it: every component is looked up in a directory
  that exists; an empty component and \<open>.\<close> stay there, \<open>..\<close> goes to the parent
  (the root is its own parent).  The location reached by the last component need not
  exist.  The empty path name resolves to nothing.
\<close>

fun walk :: "filesystem \<Rightarrow> location \<Rightarrow> string list \<Rightarrow> exn + location" where
  "walk fs d [] = Inr d"
| "walk fs d (c # cs) =
     (case nodes fs d of
        None \<Rightarrow> Inl FileNotFoundError
      | Some (File b) \<Rightarrow> Inl NotADirectoryError
      | Some Dir \<Rightarrow>
          if c = [] \<or> c = ''.'' then walk fs d cs
          else if c = ''..'' then walk fs (butlast d) cs
          else walk fs (d @ [c]) cs)"

definition resolve :: "filesystem \<Rightarrow> string \<Rightarrow> exn + location" where
  "resolve fs p =
     (if p = [] then Inl FileNotFoundError
      else walk fs (if hd p = CHR ''/'' then [] else cwd fs) (split_sep p))"

definition parent_is_dir :: "filesystem \<Rightarrow> location \<Rightarrow> bool" where
  "parent_is_dir fs a = (a \<noteq> [] \<and> nodes fs (butlast a) = Some Dir)"

text \<open>
  \<^verbatim>\<open>open(path, 'wb')\<close> creates the file or truncates it, and gives a handle (here the
  file's location); \<^verbatim>\<open>f.write(chunk)\<close> appends to the file behind the handle.
\<close>

definition open_wb :: "filesystem \<Rightarrow> string \<Rightarrow> exn + (location \<times> filesystem)" where
  "open_wb fs path =
     (case resolve fs path of
        Inl e \<Rightarrow> Inl e
      | Inr a \<Rightarrow>
          (case nodes fs a of
             Some Dir \<Rightarrow> Inl IsADirectoryError
           | _ \<Rightarrow>
               if parent_is_dir fs a
               then Inr (a, fs\<lparr>nodes := (nodes fs)(a \<mapsto> File [])\<rparr>)
               else Inl FileNotFoundError))"

definition write_file :: "filesystem \<Rightarrow> location \<Rightarrow> bytes \<Rightarrow> filesystem" where
  "write_file fs f chunk =
     (case nodes fs f of
        Some (File b) \<Rightarrow> fs\<lparr>nodes := (nodes fs)(f \<mapsto> File (b @ chunk))\<rparr>
      | _ \<Rightarrow> fs)"

text \<open>Opening a path for reading and reading all of it.\<close>

definition read_file :: "filesystem \<Rightarrow> string \<Rightarrow> exn + bytes" where
  "read_file fs path =
     (case resolve fs path of
        Inl e \<Rightarrow> Inl e
      | Inr a \<Rightarrow>
          (case nodes fs a of
             None \<Rightarrow> Inl FileNotFoundError
           | Some Dir \<Rightarrow> Inl IsADirectoryError
           | Some (File b) \<Rightarrow> Inr b))"

text \<open>
  \<^verbatim>\<open>os.path.getsize\<close>: the size a \<^verbatim>\<open>stat\<close> call reports.  For a directory that
  is a number of the platform's, the parameter \<open>dir_size\<close>.
\<close>

definition getsize :: "nat \<Rightarrow> filesystem \<Rightarrow> string \<Rightarrow> exn + nat" where
  "getsize dir_size fs path =
     (case resolve fs path of
        Inl e \<Rightarrow> Inl e
      | Inr a \<Rightarrow>
          (case nodes fs a of
             None \<Rightarrow> Inl FileNotFoundError
           | Some Dir \<Rightarrow> Inr dir_size
           | Some (File b) \<Rightarrow> Inr (length b)))"

definition isdir :: "filesystem \<Rightarrow> string \<Rightarrow> bool" where
  "isdir fs path =
     (case resolve fs path of Inl e \<Rightarrow> False | Inr a \<Rightarrow> nodes fs a = Some Dir)"

definition mkdir :: "filesystem \<Rightarrow> string \<Rightarrow> exn + filesystem" where
  "mkdir fs path =
     (case resolve fs path of
        Inl e \<Rightarrow> Inl e
      | Inr a \<Rightarrow>
          if nodes fs a \<noteq> None then Inl FileExistsError
          else if parent_is_dir fs a then Inr (fs\<lparr>nodes := (nodes fs)(a \<mapsto> Dir)\<rparr>)
          else Inl FileNotFoundError)"

text \<open>
  \<^verbatim>\<open>os.makedirs(name, exist_ok=True)\<close> for a name of one component, which is how
  \<^verbatim>\<open>main\<close> calls it: the library's recursion on the head of the name is skipped (the
  head is empty), \<^verbatim>\<open>mkdir\<close> is tried, and its error is dropped when the name is a
  directory already.
\<close>

definition makedirs :: "filesystem \<Rightarrow> string \<Rightarrow> exn + filesystem" where
  "makedirs fs name =
     (case mkdir fs name of
        Inr fs' \<Rightarrow> Inr fs'
      | Inl e \<Rightarrow> if isdir fs name then Inr fs else Inl e)"

text \<open>
  \<^verbatim>\<open>os.rename(src, dst)\<close> of a regular file: a file at the destination is replaced,
  a directory there is an error, and renaming a file to itself changes nothing.
  \<^verbatim>\<open>main\<close> renames only the file it has just read back as a font; renaming a
  directory is outside the model and reported as \<open>OSError\<close>.
\<close>

definition rename :: "filesystem \<Rightarrow> string \<Rightarrow> string \<Rightarrow> exn + filesystem" where
  "rename fs src dst =
     (case resolve fs src of
        Inl e \<Rightarrow> Inl e
      | Inr a \<Rightarrow>
          (case nodes fs a of
             None \<Rightarrow> Inl FileNotFoundError
           | Some Dir \<Rightarrow> Inl OSError
           | Some (File b) \<Rightarrow>
               (case resolve fs dst of
                  Inl e \<Rightarrow> Inl e
                | Inr d \<Rightarrow>
                    (case nodes fs d of
                       Some Dir \<Rightarrow> Inl IsADirectoryError
                     | _ \<Rightarrow>
                         if \<not> parent_is_dir fs d then Inl FileNotFoundError
                         else if a = d then Inr fs
                         else Inr (fs\<lparr>nodes := (nodes fs)(a := None, d \<mapsto> File b)\<rparr>)))))"

text \<open>\<^verbatim>\<open>shutil.rmtree(path)\<close>: the directory and everything below it is removed.\<close>

definition rmtree :: "filesystem \<Rightarrow> string \<Rightarrow> exn + filesystem" where
  "rmtree fs path =
     (case resolve fs path of
        Inl e \<Rightarrow> Inl e
      | Inr a \<Rightarrow>
          (case nodes fs a of
             None \<Rightarrow> Inl FileNotFoundError
           | Some (File b) \<Rightarrow> Inl NotADirectoryError
           | Some Dir \<Rightarrow>
               Inr (fs\<lparr>nodes := (\<lambda>p. if prefix a p then None else nodes fs p)\<rparr>)))"

section \<open>The two libraries\<close>

text \<open>
  The HTTP client and the font codec are not part of the repository.  The model takes
  what they do as a parameter, the \<open>world\<close>, and fixes only what the script relies on.

  \<^verbatim>\<open>requests.get(url, stream=True)\<close> either raises or gives a response with a
  status code and a body that \<^verbatim>\<open>iter_content\<close> delivers chunk by chunk; the stream
  can break after some chunks (the last argument of \<open>Response\<close> is false then).
  \<^verbatim>\<open>raise_for_status\<close> raises \<open>HTTPError\<close> for the codes from 400 to 599.
\<close>

datatype http_result =
    Connection_failed
  | Response nat "bytes list" bool

definition raise_for_status :: "nat \<Rightarrow> exn + unit" where
  "raise_for_status status =
     (if 400 \<le> status \<and> status < 600 then Inl HTTPError else Inr ())"

text \<open>
  A \<^verbatim>\<open>TTFont\<close> object as far as the script touches it: the \<^verbatim>\<open>flavor\<close> attribute
  (\<^verbatim>\<open>None\<close>, \<^verbatim>\<open>'woff'\<close> or \<^verbatim>\<open>'woff2'\<close>; the reader sets it from the container of
  the file it opens), what \<^verbatim>\<open>getGlyphOrder()\<close> returns or raises, and the tables,
  which the script never looks at.
\<close>

record ttfont =
  flavor :: "string option"
  glyphOrder :: "exn + string list"
  tables :: bytes

text \<open>
  \<open>TTFont\<close> is the library's reader on the bytes of a file and \<open>compile\<close> its writer,
  which serialises a font object under the flavor the object carries.
\<close>

record world =
  requests_get :: "string \<Rightarrow> http_result"
  TTFont :: "bytes \<Rightarrow> exn + ttfont"
  compile :: "ttfont \<Rightarrow> exn + bytes"
  dir_st_size :: nat

section \<open>FontConverter\<close>

text \<open>
  Each method is a \<^verbatim>\<open>try\<close> block and a handler.  The \<open>_body\<close> function is the block:
  it returns \<open>Inl\<close> where the block raises, together with the file system as the
  block left it.  The method folds the exception into \<^verbatim>\<open>False\<close>.  Log lines have no
  effect on what the script does next; of all of them the model keeps the four lines of
  the final report in \<^verbatim>\<open>main\<close>.
\<close>

fun write_chunks :: "filesystem \<Rightarrow> location \<Rightarrow> bytes list \<Rightarrow> filesystem" where
  "write_chunks fs f [] = fs"
| "write_chunks fs f (chunk # rest) = write_chunks (write_file fs f chunk) f rest"

definition download_font_body ::
  "world \<Rightarrow> filesystem \<Rightarrow> string \<Rightarrow> string \<Rightarrow> (exn + unit) \<times> filesystem" where
  "download_font_body w fs url output_path =
     (case requests_get w url of
        Connection_failed \<Rightarrow> (Inl RequestException, fs)
      | Response status body intact \<Rightarrow>
          (case raise_for_status status of
             Inl e \<Rightarrow> (Inl e, fs)
           | Inr u \<Rightarrow>
               (case open_wb fs output_path of
                  Inl e \<Rightarrow> (Inl e, fs)
                | Inr (f, fs') \<Rightarrow>
                    if intact then (Inr (), write_chunks fs' f body)
                    else (Inl ChunkedEncodingError, write_chunks fs' f body))))"

definition download_font :: "world \<Rightarrow> filesystem \<Rightarrow> string \<Rightarrow> string \<Rightarrow> bool \<times> filesystem" where
  "download_font w fs url output_path =
     (case download_font_body w fs url output_path of
        (Inr u, fs') \<Rightarrow> (True, fs')
      | (Inl e, fs') \<Rightarrow> (False, fs'))"

text \<open>
  The arguments' \<^verbatim>\<open>--output-format\<close> is one of argparse's four \<^verbatim>\<open>choices\<close>;
  \<open>format_tag\<close> is the string the script compares and prints.
\<close>

datatype output_format = Ttf | Otf | Woff | Woff2

fun format_tag :: "output_format \<Rightarrow> string" where
  "format_tag Ttf = ''ttf''"
| "format_tag Otf = ''otf''"
| "format_tag Woff = ''woff''"
| "format_tag Woff2 = ''woff2''"

text \<open>Lines 58 to 67 of \<^verbatim>\<open>convert_font\<close>: the chain that sets the flavor.\<close>

definition set_flavor :: "output_format \<Rightarrow> ttfont \<Rightarrow> ttfont" where
  "set_flavor output_format font =
     (if format_tag output_format = ''woff2'' then font\<lparr>flavor := Some ''woff2''\<rparr>
      else if format_tag output_format = ''woff'' then font\<lparr>flavor := Some ''woff''\<rparr>
      else if format_tag output_format = ''ttf'' then font
      else if format_tag output_format = ''otf'' then font
      else font)"

text \<open>
  \<^verbatim>\<open>TTFont(input_path)\<close> opens the file and reads from it; \<^verbatim>\<open>font.save(output_path)\<close>
  serialises the font into a buffer in memory and only then opens the path for writing
  and writes the buffer.  So a serialisation error leaves the file system as it was, and
  an output path that is the input path is overwritten with the converted font.
\<close>

definition convert_font_body ::
  "world \<Rightarrow> filesystem \<Rightarrow> string \<Rightarrow> string \<Rightarrow> output_format \<Rightarrow> (exn + unit) \<times> filesystem" where
  "convert_font_body w fs input_path output_path output_format =
     (case read_file fs input_path of
        Inl e \<Rightarrow> (Inl e, fs)
      | Inr b \<Rightarrow>
          (case TTFont w b of
             Inl e \<Rightarrow> (Inl e, fs)
           | Inr font \<Rightarrow>
               (case compile w (set_flavor output_format font) of
                  Inl e \<Rightarrow> (Inl e, fs)
                | Inr out \<Rightarrow>
                    (case open_wb fs output_path of
                       Inl e \<Rightarrow> (Inl e, fs)
                     | Inr (f, fs') \<Rightarrow> (Inr (), write_file fs' f out)))))"

definition convert_font ::
  "world \<Rightarrow> filesystem \<Rightarrow> string \<Rightarrow> string \<Rightarrow> output_format \<Rightarrow> bool \<times> filesystem" where
  "convert_font w fs input_path output_path output_format =
     (case convert_font_body w fs input_path output_path output_format of
        (Inr u, fs') \<Rightarrow> (True, fs')
      | (Inl e, fs') \<Rightarrow> (False, fs'))"

definition validate_font_body :: "world \<Rightarrow> filesystem \<Rightarrow> string \<Rightarrow> exn + bool" where
  "validate_font_body w fs file_path =
     (case read_file fs file_path of
        Inl e \<Rightarrow> Inl e
      | Inr b \<Rightarrow>
          (case TTFont w b of
             Inl e \<Rightarrow> Inl e
           | Inr font \<Rightarrow>
               (case glyphOrder font of
                  Inl e \<Rightarrow> Inl e
                | Inr order \<Rightarrow> Inr (length order > 0))))"

definition validate_font :: "world \<Rightarrow> filesystem \<Rightarrow> string \<Rightarrow> bool" where
  "validate_font w fs file_path =
     (case validate_font_body w fs file_path of Inr valid \<Rightarrow> valid | Inl e \<Rightarrow> False)"

section \<open>main\<close>

text \<open>
  The parsed command line.  \<^verbatim>\<open>--output-name\<close> is optional: \<open>None\<close> when it is not
  given.
\<close>

record args =
  url :: string
  output_format :: output_format
  output_name :: "string option"

text \<open>
  How the process ends: \<^verbatim>\<open>main\<close> returns (\<open>Finished\<close>), calls \<^verbatim>\<open>sys.exit(n)\<close>,
  or dies of an exception nobody catches, which the interpreter turns into a traceback
  and status 1.
\<close>

datatype outcome = Finished | Sys_exit nat | Traceback exn

fun exit_status :: "outcome \<Rightarrow> nat" where
  "exit_status Finished = 0"
| "exit_status (Sys_exit n) = n"
| "exit_status (Traceback e) = 1"

text \<open>
  What a run leaves behind: how it ended, the file system, the converter's methods it
  called with their return values, the four log lines of the report, and the
  \<^verbatim>\<open>::set-output\<close> lines on standard output.  The compression ratio is the exact
  rational number; the rounding of Python's floats and of the \<^verbatim>\<open>.1f\<close> format is not
  modelled.
\<close>

datatype call =
    Download_font string string
  | Validate_font string
  | Convert_font string string output_format

datatype log_line =
    Info_done
  | Info_input string nat
  | Info_output string nat
  | Info_ratio_percent rat

datatype output_line = Set_output_str string string | Set_output_nat string nat

record run =
  outcome :: outcome
  final :: filesystem
  calls :: "(call \<times> bool) list"
  report :: "log_line list"
  stdout :: "output_line list"

definition temp_dir :: string where
  "temp_dir = ''temp_fonts''"

text \<open>Lines 119 to 123: \<^verbatim>\<open>if args.output_name:\<close> is false for \<^verbatim>\<open>None\<close> and for \<^verbatim>\<open>''\<close>.\<close>

definition output_filename :: "args \<Rightarrow> string" where
  "output_filename a =
     (case output_name a of
        Some name \<Rightarrow>
          if name \<noteq> [] then name @ ''.'' @ format_tag (output_format a)
          else fst (splitext (input_filename (url a))) @ ''.'' @ format_tag (output_format a)
      | None \<Rightarrow> fst (splitext (input_filename (url a))) @ ''.'' @ format_tag (output_format a))"

definition input_path :: "args \<Rightarrow> string" where
  "input_path a = join temp_dir (input_filename (url a))"

definition output_path :: "args \<Rightarrow> string" where
  "output_path a = join temp_dir (output_filename a)"

text \<open>Lines 137 to 155: the report, the move into the working directory, the cleanup.\<close>

definition publish :: "world \<Rightarrow> args \<Rightarrow> filesystem \<Rightarrow> (call \<times> bool) list \<Rightarrow> run" where
  "publish w a fs cs =
     (case getsize (dir_st_size w) fs (input_path a) of
        Inl e \<Rightarrow> \<lparr>outcome = Traceback e, final = fs, calls = cs, report = [], stdout = []\<rparr>
      | Inr input_size \<Rightarrow>
     (case getsize (dir_st_size w) fs (output_path a) of
        Inl e \<Rightarrow> \<lparr>outcome = Traceback e, final = fs, calls = cs, report = [], stdout = []\<rparr>
      | Inr output_size \<Rightarrow>
     (let log3 = [Info_done, Info_input (input_filename (url a)) input_size,
                  Info_output (output_filename a) output_size]
      in if input_size = 0
         then \<lparr>outcome = Traceback ZeroDivisionError, final = fs, calls = cs,
               report = log3, stdout = []\<rparr>
         else
     (let log4 = log3 @ [Info_ratio_percent ((1 - of_nat output_size / of_nat input_size) * 100)];
          final_output_path = output_filename a
      in case rename fs (output_path a) final_output_path of
           Inl e \<Rightarrow> \<lparr>outcome = Traceback e, final = fs, calls = cs, report = log4, stdout = []\<rparr>
         | Inr fs' \<Rightarrow>
     (case rmtree fs' temp_dir of
        Inl e \<Rightarrow> \<lparr>outcome = Traceback e, final = fs', calls = cs, report = log4, stdout = []\<rparr>
      | Inr fs'' \<Rightarrow>
          \<lparr>outcome = Finished, final = fs'', calls = cs, report = log4,
           stdout = [Set_output_str ''converted_file'' final_output_path,
                     Set_output_nat ''input_size'' input_size,
                     Set_output_nat ''output_size'' output_size]\<rparr>)))))"

definition main :: "world \<Rightarrow> args \<Rightarrow> filesystem \<Rightarrow> run" where
  "main w a fs0 =
     (case makedirs fs0 temp_dir of
        Inl e \<Rightarrow> \<lparr>outcome = Traceback e, final = fs0, calls = [], report = [], stdout = []\<rparr>
      | Inr fs1 \<Rightarrow>
     (case download_font w fs1 (url a) (input_path a) of
        (False, fs2) \<Rightarrow>
          \<lparr>outcome = Sys_exit 1, final = fs2,
           calls = [(Download_font (url a) (input_path a), False)], report = [], stdout = []\<rparr>
      | (True, fs2) \<Rightarrow>
     (if \<not> validate_font w fs2 (input_path a)
      then \<lparr>outcome = Sys_exit 1, final = fs2,
            calls = [(Download_font (url a) (input_path a), True),
                     (Validate_font (input_path a), False)], report = [], stdout = []\<rparr>
      else
     (case convert_font w fs2 (input_path a) (output_path a) (output_format a) of
        (False, fs3) \<Rightarrow>
          \<lparr>outcome = Sys_exit 1, final = fs3,
           calls = [(Download_font (url a) (input_path a), True),
                    (Validate_font (input_path a), True),
                    (Convert_font (input_path a) (output_path a) (output_format a), False)],
           report = [], stdout = []\<rparr>
      | (True, fs3) \<Rightarrow>
     (if \<not> validate_font w fs3 (output_path a)
      then \<lparr>outcome = Sys_exit 1, final = fs3,
            calls = [(Download_font (url a) (input_path a), True),
                     (Validate_font (input_path a), True),
                     (Convert_font (input_path a) (output_path a) (output_format a), True),
                     (Validate_font (output_path a), False)], report = [], stdout = []\<rparr>
      else publish w a fs3
             [(Download_font (url a) (input_path a), True),
              (Validate_font (input_path a), True),
              (Convert_font (input_path a) (output_path a) (output_format a), True),
              (Validate_font (output_path a), True)])))))"

section \<open>A miniature font library to run the model on\<close>

text \<open>
  The witnesses below run the model on a stand-in for the two libraries.  A font file of
  the stand-in is a tag byte for the container (\<open>T\<close> for the plain container, \<open>W\<close> for
  WOFF, \<open>Z\<close> for WOFF2), one byte for each glyph, and after an optional \<open>.\<close> padding
  that the reader skips and the writer does not write again.
\<close>

definition toy_TTFont :: "bytes \<Rightarrow> exn + ttfont" where
  "toy_TTFont b =
     (case b of
        [] \<Rightarrow> Inl TTLibError
      | t # rest \<Rightarrow>
          (let gs = takeWhile (\<lambda>c. c \<noteq> CHR ''.'') rest;
               font = \<lparr>flavor = None, glyphOrder = Inr (map (\<lambda>g. [g]) gs), tables = gs\<rparr>
           in if t = CHR ''T'' then Inr font
              else if t = CHR ''W'' then Inr (font\<lparr>flavor := Some ''woff''\<rparr>)
              else if t = CHR ''Z'' then Inr (font\<lparr>flavor := Some ''woff2''\<rparr>)
              else Inl TTLibError))"

definition toy_tag :: "ttfont \<Rightarrow> char" where
  "toy_tag font =
     (if flavor font = Some ''woff2'' then CHR ''Z''
      else if flavor font = Some ''woff'' then CHR ''W''
      else CHR ''T'')"

definition toy_compile :: "ttfont \<Rightarrow> exn + bytes" where
  "toy_compile font = Inr (toy_tag font # tables font)"


text \<open>
  Five URLs: a plain font with padding, a WOFF font, a page the server does not have,
  a page that is no font, and a font whose stream breaks after the first chunk.
\<close>

definition toy_get :: "string \<Rightarrow> http_result" where
  "toy_get u =
     (if u = ''https://example.com/fonts/Demo.ttf?v=2'' then Response 200 [''Tab'', ''c.pad''] True
      else if u = ''https://example.com/fonts/Demo.woff'' then Response 200 [''Wabc''] True
      else if u = ''https://example.com/fonts/missing.ttf'' then Response 404 [''Not Found''] True
      else if u = ''https://example.com/fonts/page.html'' then Response 200 [''<html>''] True
      else if u = ''https://example.com/fonts/broken.ttf'' then Response 200 [''Ta''] False
      else Connection_failed)"

definition toy_world :: world where
  "toy_world =
     \<lparr>requests_get = toy_get, TTFont = toy_TTFont, compile = toy_compile, dir_st_size = 4096\<rparr>"


text \<open>
  Three file systems with the working directory \<open>/work\<close>: an empty one, one where the
  scratch directory exists already, and one with a second directory \<open>/srv\<close>.
\<close>

definition fresh_fs :: filesystem where
  "fresh_fs = \<lparr>nodes = [[] \<mapsto> Dir, [''work''] \<mapsto> Dir], cwd = [''work'']\<rparr>"

definition scratch_fs :: filesystem where
  "scratch_fs =
     \<lparr>nodes = [[] \<mapsto> Dir, [''work''] \<mapsto> Dir, [''work'', ''temp_fonts''] \<mapsto> Dir],
      cwd = [''work'']\<rparr>"

definition srv_fs :: filesystem where
  "srv_fs = \<lparr>nodes = [[] \<mapsto> Dir, [''work''] \<mapsto> Dir, [''srv''] \<mapsto> Dir], cwd = [''work'']\<rparr>"

section \<open>A relation for the proofs\<close>

text \<open>
  Two file systems have the same directories when the working directory is the same
  and the same locations are directories.  Writing a file keeps the directories, and
  path name resolution succeeds on the same paths in both.
\<close>

definition same_dirs :: "filesystem \<Rightarrow> filesystem \<Rightarrow> bool" where
  "same_dirs fs fs' =
     (cwd fs' = cwd fs \<and> (\<forall>l. (nodes fs' l = Some Dir) = (nodes fs l = Some Dir)))"

section \<open>Properties of the file-name functions\<close>

lemma rfind_drop:
  assumes "c \<in> set s"
  shows "0 \<le> rfind s c" and "drop (nat (rfind s c)) s = c # rev (takeWhile (\<lambda>x. x \<noteq> c) (rev s))"
    and "take (nat (rfind s c)) s = rev (tl (dropWhile (\<lambda>x. x \<noteq> c) (rev s)))"
proof -
  let ?P = "\<lambda>x. x \<noteq> c"
  let ?t = "takeWhile ?P (rev s)"
  let ?d = "dropWhile ?P (rev s)"
  from assms have "?d \<noteq> []" by simp
  moreover have "hd ?d = c" using \<open>?d \<noteq> []\<close> hd_dropWhile [of ?P "rev s"] by auto
  ultimately obtain r where d: "?d = c # r" by (cases ?d) auto
  have "rev s = ?t @ c # r" using d takeWhile_dropWhile_id [of ?P "rev s"] by simp
  then have s: "s = rev r @ c # rev ?t" by (metis rev_append rev.simps(2) rev_rev_ident append.assoc append_Cons append_Nil)
  have len: "length s = length r + 1 + length ?t" by (subst s) simp
  have idx: "rfind s c = int (length r)" using assms len by (simp add: rfind_def)
  show "0 \<le> rfind s c" by (simp add: idx)
  have "drop (length r) s = c # rev ?t" by (subst s) simp
  then show "drop (nat (rfind s c)) s = c # rev ?t" by (simp add: idx)
  have "take (length r) s = rev r" by (subst s) simp
  then show "take (nat (rfind s c)) s = rev (tl ?d)" by (simp add: idx d)
qed








text \<open>
  Claim C3.  The name under which the download is stored is cut out of the URL by
  taking the text after the last \<open>/\<close> first and stripping the query from that.  For a
  URL with a \<open>/\<close> inside its query the result is a piece of the query, not the last
  path segment: the code yields \<open>2\<close> where the specification's name is \<open>Demo.ttf\<close>.
\<close>

theorem input_filename_query_slash:
  "input_filename ''https://example.com/fonts/Demo.ttf?size=1/2'' = ''2''
   \<and> spec_local_name ''https://example.com/fonts/Demo.ttf?size=1/2'' = ''Demo.ttf''"
  by (simp add: input_filename_def spec_local_name_def basename_def rfind_def slice_from_def split_first_def)

text \<open>The stored file name has no separator in it.\<close>

lemma basename_no_sep: "CHR ''/'' \<notin> set (basename p)"
proof (cases "CHR ''/'' \<in> set p")
  case True
  have "basename p = drop 1 (drop (nat (rfind p (CHR ''/''))) p)"
    using rfind_drop(1) [OF True] by (simp add: basename_def slice_from_def nat_add_distrib)
  also have "\<dots> = rev (takeWhile (\<lambda>x. x \<noteq> CHR ''/'') (rev p))"
    by (simp add: rfind_drop(2) [OF True])
  finally show ?thesis by (auto dest: set_takeWhileD)
next
  case False
  then show ?thesis by (simp add: basename_def slice_from_def rfind_def)
qed

lemma input_filename_no_sep: "CHR ''/'' \<notin> set (input_filename u)"
  using basename_no_sep [of u] by (auto simp: input_filename_def split_first_def dest: set_takeWhileD)

lemma splitext_fst_no_sep: "CHR ''/'' \<notin> set s \<Longrightarrow> CHR ''/'' \<notin> set (fst (splitext s))"
  by (auto simp: splitext_def Let_def slice_def dest: in_set_takeD)

section \<open>Properties of FontConverter\<close>

text \<open>
  Claim C4.  \<open>validate_font\<close> is true exactly when the file can be read, the reader
  opens its bytes as a font, \<^verbatim>\<open>getGlyphOrder\<close> returns, and the glyph order has at
  least one entry.  Whatever the body of the \<^verbatim>\<open>try\<close> block raises, the method returns
  false; when the body returns, the method returns the body's value.
\<close>

theorem validate_font_iff:
  "(validate_font w fs p \<longleftrightarrow>
      (\<exists>b font order. read_file fs p = Inr b \<and> TTFont w b = Inr font
          \<and> glyphOrder font = Inr order \<and> order \<noteq> []))
   \<and> (case validate_font_body w fs p of
         Inl e \<Rightarrow> validate_font w fs p = False
       | Inr valid \<Rightarrow> validate_font w fs p = valid)"
  by (auto simp: validate_font_def validate_font_body_def split: sum.splits)

text \<open>
  What the chain of lines 58 to 67 does to the flavor: the two compressed formats set
  it, and \<open>ttf\<close> and \<open>otf\<close> leave the flavor the reader found in the input file.
\<close>

lemma set_flavor_flavor:
  "flavor (set_flavor fmt font) =
     (if fmt = Woff2 then Some ''woff2'' else if fmt = Woff then Some ''woff'' else flavor font)"
  by (cases fmt) (simp_all add: set_flavor_def)

text \<open>
  Claim C2.  For the targets \<open>ttf\<close> and \<open>otf\<close> the output is not always the plain
  container.  A WOFF font converted to \<open>ttf\<close> keeps the flavor \<open>woff\<close> of its reader,
  and the file published as \<open>Demo.ttf\<close> is a WOFF container again.
\<close>

theorem woff_to_ttf_stays_woff:
  "(let r = main toy_world
        \<lparr>url = ''https://example.com/fonts/Demo.woff'', output_format = Ttf, output_name = None\<rparr>
        fresh_fs
    in outcome r = Finished
       \<and> nodes (final r) [''work'', ''Demo.ttf''] = Some (File ''Wabc'')
       \<and> map_sum id flavor (toy_TTFont ''Wabc'') = Inr (Some ''woff''))"
  by code_simp

text \<open>
  Claim C9.  When the response carries a status code from 400 to 599,
  \<open>download_font\<close> returns false and the file system is as it was: the status is
  checked before the output file is opened.  A stream that breaks after the file was
  opened leaves the chunks received so far in a file at the output path.
\<close>

theorem download_font_http_error:
  "(requests_get w u = Response status body intact \<and> 400 \<le> status \<and> status < 600
      \<longrightarrow> download_font w fs u path = (False, fs))
   \<and> (let (ok, fs') = download_font toy_world scratch_fs
          ''https://example.com/fonts/broken.ttf'' ''temp_fonts/broken.ttf''
       in \<not> ok \<and> nodes scratch_fs [''work'', ''temp_fonts'', ''broken.ttf''] = None
          \<and> nodes fs' [''work'', ''temp_fonts'', ''broken.ttf''] = Some (File ''Ta''))"
proof (intro conjI impI)
  assume "requests_get w u = Response status body intact \<and> 400 \<le> status \<and> status < 600"
  then show "download_font w fs u path = (False, fs)"
    by (simp add: download_font_def download_font_body_def raise_for_status_def)
next
  show "(let (ok, fs') = download_font toy_world scratch_fs
          ''https://example.com/fonts/broken.ttf'' ''temp_fonts/broken.ttf''
       in \<not> ok \<and> nodes scratch_fs [''work'', ''temp_fonts'', ''broken.ttf''] = None
          \<and> nodes fs' [''work'', ''temp_fonts'', ''broken.ttf''] = Some (File ''Ta''))"
    by code_simp
qed

text \<open>
  The witness of claim C9: the response 404 for \<open>missing.ttf\<close> leaves the file system
  with the scratch directory unchanged.
\<close>

theorem download_font_http_error_witness:
  "requests_get toy_world ''https://example.com/fonts/missing.ttf'' = Response 404 [''Not Found''] True
   \<and> (400::nat) \<le> 404 \<and> (404::nat) < 600
   \<and> download_font toy_world scratch_fs ''https://example.com/fonts/missing.ttf''
        ''temp_fonts/missing.ttf'' = (False, scratch_fs)"
proof -
  have g: "requests_get toy_world ''https://example.com/fonts/missing.ttf'' = Response 404 [''Not Found''] True"
    by (simp add: toy_world_def toy_get_def)
  from download_font_http_error [of toy_world "''https://example.com/fonts/missing.ttf''" 404
      "[''Not Found'']" True scratch_fs "''temp_fonts/missing.ttf''"] g
  show ?thesis by simp
qed

section \<open>Properties of the file system operations\<close>

text \<open>Writing files keeps the directories, so paths resolve as before.\<close>

lemma same_dirs_refl: "same_dirs fs fs"
  by (simp add: same_dirs_def)

lemma same_dirs_trans: "same_dirs fs fs' \<Longrightarrow> same_dirs fs' fs'' \<Longrightarrow> same_dirs fs fs''"
  by (simp add: same_dirs_def)

lemma walk_same_dirs:
  assumes "same_dirs fs fs'"
  shows "(walk fs' d cs = Inr a) = (walk fs d cs = Inr a)"
proof (induction cs arbitrary: d)
  case Nil
  show ?case by simp
next
  case (Cons c cs)
  show ?case
  proof (cases "nodes fs d = Some Dir")
    case True
    with assms have "nodes fs' d = Some Dir" by (simp add: same_dirs_def)
    with True Cons.IH show ?thesis by simp
  next
    case False
    with assms have "nodes fs' d \<noteq> Some Dir" by (simp add: same_dirs_def)
    with False show ?thesis by (auto split: option.splits node.splits)
  qed
qed

lemma resolve_same_dirs:
  "same_dirs fs fs' \<Longrightarrow> (resolve fs' p = Inr a) = (resolve fs p = Inr a)"
  using walk_same_dirs [of fs fs'] by (simp add: resolve_def same_dirs_def)


lemma file_update_same_dirs:
  "nodes fs f \<noteq> Some Dir \<Longrightarrow> nodes fs' = (nodes fs)(f \<mapsto> File x) \<Longrightarrow> cwd fs' = cwd fs
     \<Longrightarrow> same_dirs fs fs'"
  by (auto simp: same_dirs_def)

lemma open_wb_Inr:
  assumes "open_wb fs p = Inr (f, fs')"
  shows "resolve fs p = Inr f" and "nodes fs f \<noteq> Some Dir" and "parent_is_dir fs f"
    and "nodes fs' = (nodes fs)(f \<mapsto> File [])" and "cwd fs' = cwd fs"
  using assms by (auto simp: open_wb_def split: sum.splits option.splits node.splits if_splits)

lemma write_chunks_nodes:
  "nodes fs f = Some (File b0) \<Longrightarrow>
     nodes (write_chunks fs f body) = (nodes fs)(f \<mapsto> File (b0 @ concat body))
     \<and> cwd (write_chunks fs f body) = cwd fs"
proof (induction body arbitrary: fs b0)
  case Nil
  then show ?case by (auto simp: fun_eq_iff)
next
  case (Cons chunk rest)
  let ?fs = "write_file fs f chunk"
  from Cons.prems have n: "nodes ?fs = (nodes fs)(f \<mapsto> File (b0 @ chunk))" and c: "cwd ?fs = cwd fs"
    by (simp_all add: write_file_def)
  then have "nodes ?fs f = Some (File (b0 @ chunk))" by simp
  from Cons.IH [OF this] n c show ?case by (auto simp: fun_eq_iff)
qed

lemma rename_Inr:
  assumes "rename fs src dst = Inr fs'"
  obtains s d b where "resolve fs src = Inr s" and "nodes fs s = Some (File b)"
    and "resolve fs dst = Inr d" and "nodes fs d \<noteq> Some Dir" and "cwd fs' = cwd fs"
    and "nodes fs' = (if s = d then nodes fs else (nodes fs)(s := None, d \<mapsto> File b))"
proof -
  from assms obtain s where s: "resolve fs src = Inr s"
    by (auto simp: rename_def split: sum.splits)
  with assms obtain b where b: "nodes fs s = Some (File b)"
    by (auto simp: rename_def split: option.splits node.splits)
  with assms s obtain d where d: "resolve fs dst = Inr d"
    by (auto simp: rename_def split: sum.splits)
  with assms s b have n: "nodes fs d \<noteq> Some Dir"
    by (auto simp: rename_def)
  with assms s b d have "cwd fs' = cwd fs"
    and "nodes fs' = (if s = d then nodes fs else (nodes fs)(s := None, d \<mapsto> File b))"
    by (auto simp: rename_def split: option.splits node.splits if_splits)
  with s b d n show ?thesis by (rule that)
qed

lemma resolve_temp_dir:
  "resolve fs temp_dir =
     (case nodes fs (cwd fs) of
        None \<Rightarrow> Inl FileNotFoundError
      | Some (File b) \<Rightarrow> Inl NotADirectoryError
      | Some Dir \<Rightarrow> Inr (cwd fs @ [temp_dir]))"
  by (simp add: resolve_def temp_dir_def split: option.splits node.splits)

lemma makedirs_temp_dir:
  assumes "makedirs fs temp_dir = Inr fs'"
  shows "nodes fs (cwd fs) = Some Dir" and "cwd fs' = cwd fs"
    and "nodes fs' = (nodes fs)(cwd fs @ [temp_dir] \<mapsto> Dir)"
  using assms
  by (auto simp: makedirs_def mkdir_def isdir_def resolve_temp_dir fun_eq_iff
      split: sum.splits option.splits node.splits if_splits)


lemma rmtree_temp_dir:
  assumes "rmtree fs temp_dir = Inr fs'"
  shows "nodes fs (cwd fs) = Some Dir" and "cwd fs' = cwd fs"
    and "nodes fs' = (\<lambda>l. if prefix (cwd fs @ [temp_dir]) l then None else nodes fs l)"
  using assms
  by (auto simp: rmtree_def resolve_temp_dir split: sum.splits option.splits node.splits if_splits)


text \<open>Paths below the scratch directory and plain names in the working directory.\<close>

lemma split_sep_no_sep: "CHR ''/'' \<notin> set s \<Longrightarrow> split_sep s = [s]"
  by (induction s) auto

lemma split_sep_append:
  "CHR ''/'' \<notin> set a \<Longrightarrow> split_sep (a @ CHR ''/'' # b) = a # split_sep b"
  by (induction a) auto

lemma join_temp_dir:
  "CHR ''/'' \<notin> set name \<Longrightarrow> join temp_dir name = temp_dir @ CHR ''/'' # name"
  by (cases name) (auto simp: join_def temp_dir_def)

lemma temp_dir_no_sep: "CHR ''/'' \<notin> set temp_dir"
  by (simp add: temp_dir_def)

lemma temp_dir_plain: "temp_dir \<noteq> []" "temp_dir \<noteq> ''.''" "temp_dir \<noteq> ''..''"
  by (simp_all add: temp_dir_def)

lemma resolve_in_temp_dir:
  assumes "CHR ''/'' \<notin> set name"
    and "nodes fs (cwd fs) = Some Dir" and "nodes fs (cwd fs @ [temp_dir]) = Some Dir"
  shows "resolve fs (join temp_dir name) =
           Inr (if name = [] \<or> name = ''.'' then cwd fs @ [temp_dir]
                else if name = ''..'' then cwd fs
                else cwd fs @ [temp_dir, name])"
proof -
  have j: "join temp_dir name = temp_dir @ CHR ''/'' # name"
    using assms(1) by (rule join_temp_dir)
  have s: "split_sep (join temp_dir name) = [temp_dir, name]"
    using assms(1) by (simp add: j split_sep_append [OF temp_dir_no_sep] split_sep_no_sep)
  have h: "join temp_dir name \<noteq> []" "hd (join temp_dir name) \<noteq> CHR ''/''"
    unfolding j by (simp_all add: temp_dir_def)
  show ?thesis
    using assms(2,3) temp_dir_plain by (simp add: resolve_def h s)
qed

lemma resolve_plain_name:
  assumes "CHR ''/'' \<notin> set name" and "name \<noteq> []" and "name \<noteq> ''.''" and "name \<noteq> ''..''"
    and "nodes fs (cwd fs) = Some Dir"
  shows "resolve fs name = Inr (cwd fs @ [name])"
proof -
  from assms(1,2) have "hd name \<noteq> CHR ''/''" by (cases name) auto
  with assms show ?thesis by (simp add: resolve_def split_sep_no_sep)
qed

text \<open>What a successful download and a successful conversion have done.\<close>

lemma download_font_True:
  assumes "download_font w fs u p = (True, fs')"
  shows "\<exists>status body f. requests_get w u = Response status body True
           \<and> resolve fs p = Inr f \<and> nodes fs f \<noteq> Some Dir \<and> parent_is_dir fs f
           \<and> nodes fs' = (nodes fs)(f \<mapsto> File (concat body)) \<and> cwd fs' = cwd fs"
proof -
  from assms obtain status body f fs1 where
    g: "requests_get w u = Response status body True" and o: "open_wb fs p = Inr (f, fs1)"
    and r: "fs' = write_chunks fs1 f body"
    by (auto simp: download_font_def download_font_body_def
        split: http_result.splits sum.splits prod.splits if_splits)
  note ow = open_wb_Inr [OF o]
  from ow(4) have "nodes fs1 f = Some (File [])" by simp
  from write_chunks_nodes [OF this, of body] r ow g show ?thesis by auto
qed

lemma download_font_same_dirs:
  assumes "download_font w fs u p = (ok, fs')"
  shows "same_dirs fs fs'"
proof -
  have "fs' = fs \<or> (\<exists>body f fs1. open_wb fs p = Inr (f, fs1) \<and> fs' = write_chunks fs1 f body)"
    using assms
    by (auto simp: download_font_def download_font_body_def
        split: http_result.splits sum.splits prod.splits if_splits)
  then show ?thesis
  proof
    assume "fs' = fs" then show ?thesis by (simp add: same_dirs_refl)
  next
    assume "\<exists>body f fs1. open_wb fs p = Inr (f, fs1) \<and> fs' = write_chunks fs1 f body"
    then obtain body f fs1 where o: "open_wb fs p = Inr (f, fs1)" and r: "fs' = write_chunks fs1 f body"
      by blast
    note ow = open_wb_Inr [OF o]
    from ow(4) have "nodes fs1 f = Some (File [])" by simp
    from write_chunks_nodes [OF this, of body] r ow
    have "nodes fs' = (nodes fs)(f \<mapsto> File (concat body))" "cwd fs' = cwd fs" by auto
    with ow(2) show ?thesis by (auto intro: file_update_same_dirs)
  qed
qed

lemma convert_font_True:
  assumes "convert_font w fs i p fmt = (True, fs')"
  shows "\<exists>b0 font b f. read_file fs i = Inr b0 \<and> TTFont w b0 = Inr font
           \<and> compile w (set_flavor fmt font) = Inr b
           \<and> resolve fs p = Inr f \<and> nodes fs f \<noteq> Some Dir \<and> parent_is_dir fs f
           \<and> nodes fs' = (nodes fs)(f \<mapsto> File b) \<and> cwd fs' = cwd fs"
proof -
  from assms obtain b0 font b f fs1 where
    g: "read_file fs i = Inr b0" "TTFont w b0 = Inr font" "compile w (set_flavor fmt font) = Inr b"
    and o: "open_wb fs p = Inr (f, fs1)" and r: "fs' = write_file fs1 f b"
    by (auto simp: convert_font_def convert_font_body_def split: sum.splits prod.splits)
  note ow = open_wb_Inr [OF o]
  from ow(4) r have "nodes fs' = (nodes fs)(f \<mapsto> File b)" "cwd fs' = cwd fs1"
    by (simp_all add: write_file_def)
  with g ow show ?thesis by auto
qed

lemma convert_font_same_dirs:
  assumes "convert_font w fs i p fmt = (ok, fs')"
  shows "same_dirs fs fs'"
proof (cases ok)
  case True
  with assms convert_font_True [of w fs i p fmt fs'] show ?thesis
    by (auto intro: file_update_same_dirs)
next
  case False
  with assms have "fs' = fs"
    by (auto simp: convert_font_def convert_font_body_def split: sum.splits prod.splits)
  then show ?thesis by (simp add: same_dirs_refl)
qed

text \<open>The output file name ends in a dot and the format tag.\<close>

lemma output_filename_tag:
  "\<exists>x. output_filename a = x @ ''.'' @ format_tag (output_format a)"
  by (auto simp: output_filename_def split: option.splits)

lemma output_filename_plain:
  "output_filename a \<noteq> []" "output_filename a \<noteq> ''.''" "output_filename a \<noteq> ''..''"
  "output_filename a \<noteq> temp_dir"
proof -
  obtain x where x: "output_filename a = x @ ''.'' @ format_tag (output_format a)"
    using output_filename_tag by blast
  then have l: "length (output_filename a) \<ge> 4"
    by (cases "output_format a") simp_all
  from x have d: "CHR ''.'' \<in> set (output_filename a)" by simp
  from l show "output_filename a \<noteq> []" "output_filename a \<noteq> ''.''" "output_filename a \<noteq> ''..''"
    by auto
  from d show "output_filename a \<noteq> temp_dir" by (auto simp: temp_dir_def)
qed

lemma output_filename_no_sep:
  assumes "\<And>n. output_name a = Some n \<Longrightarrow> CHR ''/'' \<notin> set n"
  shows "CHR ''/'' \<notin> set (output_filename a)"
proof -
  have t: "CHR ''/'' \<notin> set (format_tag (output_format a))"
    by (cases "output_format a") simp_all
  have b: "CHR ''/'' \<notin> set (fst (splitext (input_filename (url a))))"
    by (rule splitext_fst_no_sep) (rule input_filename_no_sep)
  show ?thesis
  proof (cases "output_name a")
    case None
    with t b show ?thesis by (simp add: output_filename_def)
  next
    case (Some n)
    with assms have "CHR ''/'' \<notin> set n" by simp
    with Some t b show ?thesis by (simp add: output_filename_def)
  qed
qed

section \<open>Properties of main\<close>

text \<open>A run that finishes has passed every stage.\<close>

lemma main_Finished:
  assumes "outcome (main w a fs0) = Finished"
  shows "\<exists>fs1 fs2 fs3 fs4 n m.
      makedirs fs0 temp_dir = Inr fs1
    \<and> download_font w fs1 (url a) (input_path a) = (True, fs2)
    \<and> validate_font w fs2 (input_path a)
    \<and> convert_font w fs2 (input_path a) (output_path a) (output_format a) = (True, fs3)
    \<and> validate_font w fs3 (output_path a)
    \<and> getsize (dir_st_size w) fs3 (input_path a) = Inr n \<and> n \<noteq> 0
    \<and> getsize (dir_st_size w) fs3 (output_path a) = Inr m
    \<and> rename fs3 (output_path a) (output_filename a) = Inr fs4
    \<and> rmtree fs4 temp_dir = Inr (final (main w a fs0))
    \<and> stdout (main w a fs0) =
        [Set_output_str ''converted_file'' (output_filename a),
         Set_output_nat ''input_size'' n, Set_output_nat ''output_size'' m]"
  using assms
  by (auto simp: main_def publish_def Let_def split: sum.splits prod.splits bool.splits if_splits)



text \<open>
  Claim C8.  When the downloaded file does not pass validation, \<open>main\<close> exits with
  status 1 after the calls of \<open>download_font\<close> and \<open>validate_font\<close>:
  \<open>convert_font\<close> is not among the calls of the run, and the file system is as the
  download left it.
\<close>

theorem invalid_download_not_converted:
  assumes "makedirs fs0 temp_dir = Inr fs1"
    and "download_font w fs1 (url a) (input_path a) = (True, fs2)"
    and "\<not> validate_font w fs2 (input_path a)"
  shows "exit_status (outcome (main w a fs0)) = 1
    \<and> outcome (main w a fs0) = Sys_exit 1
    \<and> calls (main w a fs0) =
        [(Download_font (url a) (input_path a), True), (Validate_font (input_path a), False)]
    \<and> \<not> (\<exists>i p f b. (Convert_font i p f, b) \<in> set (calls (main w a fs0)))
    \<and> final (main w a fs0) = fs2"
  using assms by (simp add: main_def)

text \<open>The witness of claim C8: the URL \<open>page.html\<close> delivers a page that is no font.\<close>

theorem invalid_download_not_converted_witness:
  "\<not> validate_font toy_world
       (scratch_fs\<lparr>nodes := (nodes scratch_fs)
          ([''work'', ''temp_fonts'', ''page.html''] \<mapsto> File ''<html>'')\<rparr>)
       ''temp_fonts/page.html''
   \<and> outcome (main toy_world
        \<lparr>url = ''https://example.com/fonts/page.html'', output_format = Woff2,
         output_name = None\<rparr> fresh_fs) = Sys_exit 1
   \<and> calls (main toy_world
        \<lparr>url = ''https://example.com/fonts/page.html'', output_format = Woff2,
         output_name = None\<rparr> fresh_fs) =
       [(Download_font ''https://example.com/fonts/page.html'' ''temp_fonts/page.html'', True),
        (Validate_font ''temp_fonts/page.html'', False)]"
proof -
  let ?a = "\<lparr>url = ''https://example.com/fonts/page.html'', output_format = Woff2,
         output_name = None\<rparr>"
  let ?fs2 = "scratch_fs\<lparr>nodes := (nodes scratch_fs)
          ([''work'', ''temp_fonts'', ''page.html''] \<mapsto> File ''<html>'')\<rparr>"
  have p: "url ?a = ''https://example.com/fonts/page.html''"
    "input_path ?a = ''temp_fonts/page.html''"
    by code_simp+
  have 1: "makedirs fresh_fs temp_dir = Inr scratch_fs"
    by (simp add: makedirs_def mkdir_def resolve_def fresh_fs_def scratch_fs_def
        parent_is_dir_def temp_dir_def)
  have 2: "download_font toy_world scratch_fs (url ?a) (input_path ?a) = (True, ?fs2)"
    unfolding p
    by (simp add: download_font_def download_font_body_def toy_world_def toy_get_def
        raise_for_status_def open_wb_def resolve_def scratch_fs_def parent_is_dir_def
        write_file_def)
  have 3: "\<not> validate_font toy_world ?fs2 ''temp_fonts/page.html''"
    by code_simp
  then have v: "\<not> validate_font toy_world ?fs2 (input_path ?a)"
    by (simp add: p)
  from invalid_download_not_converted [OF 1 2 v] 3 show ?thesis
    unfolding p by blast
qed




text \<open>
  A successful run whose output file name has no \<open>/\<close>, followed through all its
  stages: what was downloaded, what was written, what the file system is at the end and
  what is printed.  The reported input size is the size of the download only when the
  input and the output file have different names; with the same name the conversion has
  overwritten the download before its size is taken.
\<close>

lemma successful_run:
  assumes fin: "outcome (main w a fs0) = Finished"
    and plain: "CHR ''/'' \<notin> set (output_filename a)"
  obtains status body font b where
    "requests_get w (url a) = Response status body True"
    and "TTFont w (concat body) = Inr font"
    and "compile w (set_flavor (output_format a) font) = Inr b"
    and "cwd (final (main w a fs0)) = cwd fs0"
    and "nodes (final (main w a fs0)) =
          (\<lambda>l. if prefix (cwd fs0 @ [temp_dir]) l then None
               else if l = cwd fs0 @ [output_filename a] then Some (File b)
               else nodes fs0 l)"
    and "stdout (main w a fs0) =
          [Set_output_str ''converted_file'' (output_filename a),
           Set_output_nat ''input_size''
             (if input_filename (url a) = output_filename a then length b
              else length (concat body)),
           Set_output_nat ''output_size'' (length b)]"
proof -
  let ?C = "cwd fs0"
  let ?T = "cwd fs0 @ [temp_dir]"
  let ?i = "input_filename (url a)"
  let ?o = "output_filename a"
  let ?F = "cwd fs0 @ [output_filename a]"
  from main_Finished [OF fin] obtain fs1 fs2 fs3 fs4 n m where
    mk: "makedirs fs0 temp_dir = Inr fs1"
    and dl: "download_font w fs1 (url a) (input_path a) = (True, fs2)"
    and cv: "convert_font w fs2 (input_path a) (output_path a) (output_format a) = (True, fs3)"
    and gi: "getsize (dir_st_size w) fs3 (input_path a) = Inr n"
    and go: "getsize (dir_st_size w) fs3 (output_path a) = Inr m"
    and rn: "rename fs3 (output_path a) (output_filename a) = Inr fs4"
    and rm: "rmtree fs4 temp_dir = Inr (final (main w a fs0))"
    and out: "stdout (main w a fs0) =
        [Set_output_str ''converted_file'' (output_filename a),
         Set_output_nat ''input_size'' n, Set_output_nat ''output_size'' m]"
    by blast
  note md = makedirs_temp_dir [OF mk]
  have c1: "cwd fs1 = ?C" and d1: "nodes fs1 ?C = Some Dir" "nodes fs1 ?T = Some Dir"
    using md by simp_all
  \<comment> \<open>the download\<close>
  from download_font_True [OF dl] obtain status body I where
    rg: "requests_get w (url a) = Response status body True"
    and ri: "resolve fs1 (input_path a) = Inr I"
    and ni: "nodes fs1 I \<noteq> Some Dir"
    and n2: "nodes fs2 = (nodes fs1)(I \<mapsto> File (concat body))"
    and c2: "cwd fs2 = cwd fs1"
    by blast
  have I: "I = ?T @ [?i]"
    using resolve_in_temp_dir [OF input_filename_no_sep, of fs1 "url a"] ri ni d1 c1
    by (auto simp: input_path_def split: if_splits)
  have sd12: "same_dirs fs1 fs2" using dl by (rule download_font_same_dirs)
  have d2: "nodes fs2 ?C = Some Dir" "nodes fs2 ?T = Some Dir"
    using sd12 d1 by (simp_all add: same_dirs_def)
  have ri2: "resolve fs2 (input_path a) = Inr I"
    using resolve_same_dirs [OF sd12] ri by simp
  \<comment> \<open>the conversion\<close>
  from convert_font_True [OF cv] obtain b0 font b O' where
    rd: "read_file fs2 (input_path a) = Inr b0"
    and tt: "TTFont w b0 = Inr font"
    and cp: "compile w (set_flavor (output_format a) font) = Inr b"
    and ro: "resolve fs2 (output_path a) = Inr O'"
    and n3: "nodes fs3 = (nodes fs2)(O' \<mapsto> File b)"
    and c3: "cwd fs3 = cwd fs2"
    by blast
  have b0: "b0 = concat body"
    using rd ri2 n2 by (simp add: read_file_def)
  have O: "O' = ?T @ [?o]"
    using resolve_in_temp_dir [OF plain, of fs2] ro d2 c2 c1 output_filename_plain [of a]
    by (simp add: output_path_def)
  have sd23: "same_dirs fs2 fs3" using cv by (rule convert_font_same_dirs)
  have d3: "nodes fs3 ?C = Some Dir" "nodes fs3 ?T = Some Dir"
    using sd23 d2 by (simp_all add: same_dirs_def)
  have cw3: "cwd fs3 = ?C" using c3 c2 c1 by simp
  have ro3: "resolve fs3 (output_path a) = Inr O'"
    using resolve_same_dirs [OF sd23] ro by simp
  have ri3: "resolve fs3 (input_path a) = Inr I"
    using resolve_same_dirs [OF sd23] ri2 by simp
  have IO: "I = O' \<longleftrightarrow> ?i = ?o" using I O by simp
  \<comment> \<open>the sizes\<close>
  have n: "n = (if ?i = ?o then length b else length (concat body))"
    using gi ri3 n3 n2 IO by (auto simp: getsize_def)
  have m: "m = length b"
    using go ro3 n3 by (simp add: getsize_def)
  \<comment> \<open>the move into the working directory\<close>
  have rf: "resolve fs3 ?o = Inr ?F"
    using resolve_plain_name [OF plain, of fs3] output_filename_plain [of a] d3 cw3 by simp
  have OF: "O' \<noteq> ?F" using O by simp
  from rn obtain s d bb where
    "resolve fs3 (output_path a) = Inr s" and "nodes fs3 s = Some (File bb)"
    and "resolve fs3 ?o = Inr d" and c4: "cwd fs4 = cwd fs3"
    and "nodes fs4 = (if s = d then nodes fs3 else (nodes fs3)(s := None, d \<mapsto> File bb))"
    by (rule rename_Inr)
  with ro3 rf n3 OF have n4: "nodes fs4 = (nodes fs3)(O' := None, ?F \<mapsto> File b)"
    by simp
  \<comment> \<open>the cleanup\<close>
  note rt = rmtree_temp_dir [OF rm]
  have cw4: "cwd fs4 = ?C" using c4 cw3 by simp
  have c5: "cwd (final (main w a fs0)) = ?C" using rt(2) cw4 by simp
  have FT: "\<not> prefix ?T ?F" using output_filename_plain(4) [of a] by simp
  have n5: "nodes (final (main w a fs0)) =
          (\<lambda>l. if prefix ?T l then None else if l = ?F then Some (File b) else nodes fs0 l)"
  proof
    fix l
    show "nodes (final (main w a fs0)) l =
          (if prefix ?T l then None else if l = ?F then Some (File b) else nodes fs0 l)"
    proof (cases "prefix ?T l")
      case True
      then show ?thesis using rt(3) cw4 by simp
    next
      case False
      then have "l \<noteq> O'" "l \<noteq> I" "l \<noteq> ?T" using O I by auto
      then show ?thesis using False rt(3) cw4 n4 n3 n2 md(3) by simp
    qed
  qed
  from rg tt [unfolded b0] cp c5 n5 out [unfolded n m] show ?thesis by (rule that)
qed

text \<open>
  Claim C6, as stated, fails.  With the absolute output name \<open>/srv/foo\<close> the run
  succeeds and the converted file is \<open>/srv/foo.woff2\<close>: no file at all is left in the
  working directory \<open>/work\<close>.  With the empty output name the run succeeds and the
  file is named after the download, \<open>Demo.woff2\<close>, not \<open>.woff2\<close>.
\<close>

theorem output_name_counterexample:
  "(let r = main toy_world
        \<lparr>url = ''https://example.com/fonts/Demo.ttf?v=2'', output_format = Woff2,
         output_name = Some ''/srv/foo''\<rparr> srv_fs
    in outcome r = Finished
       \<and> stdout r = [Set_output_str ''converted_file'' ''/srv/foo.woff2'',
                      Set_output_nat ''input_size'' 8, Set_output_nat ''output_size'' 4]
       \<and> nodes (final r) [''srv'', ''foo.woff2''] = Some (File ''Zabc''))
   \<and> (\<forall>n. nodes (final (main toy_world
        \<lparr>url = ''https://example.com/fonts/Demo.ttf?v=2'', output_format = Woff2,
         output_name = Some ''/srv/foo''\<rparr> srv_fs)) [''work'', n] = None)
   \<and> (let r = main toy_world
        \<lparr>url = ''https://example.com/fonts/Demo.ttf?v=2'', output_format = Woff2,
         output_name = Some ''''\<rparr> fresh_fs
    in outcome r = Finished
       \<and> stdout r = [Set_output_str ''converted_file'' ''Demo.woff2'',
                      Set_output_nat ''input_size'' 8, Set_output_nat ''output_size'' 4]
       \<and> nodes (final r) [''work'', ''Demo.woff2''] = Some (File ''Zabc'')
       \<and> nodes (final r) [''work'', ''.woff2''] = None)"
proof (intro conjI)
  show "let r = main toy_world
        \<lparr>url = ''https://example.com/fonts/Demo.ttf?v=2'', output_format = Woff2,
         output_name = Some ''/srv/foo''\<rparr> srv_fs
    in outcome r = Finished
       \<and> stdout r = [Set_output_str ''converted_file'' ''/srv/foo.woff2'',
                      Set_output_nat ''input_size'' 8, Set_output_nat ''output_size'' 4]
       \<and> nodes (final r) [''srv'', ''foo.woff2''] = Some (File ''Zabc'')"
    by code_simp
  show "\<forall>n. nodes (final (main toy_world
        \<lparr>url = ''https://example.com/fonts/Demo.ttf?v=2'', output_format = Woff2,
         output_name = Some ''/srv/foo''\<rparr> srv_fs)) [''work'', n] = None"
    by (simp add: main_def publish_def Let_def toy_world_def srv_fs_def temp_dir_def
        makedirs_def mkdir_def resolve_def parent_is_dir_def
        download_font_def download_font_body_def toy_get_def raise_for_status_def
        input_path_def input_filename_def basename_def rfind_def slice_from_def
        split_first_def join_def open_wb_def write_file_def
        validate_font_def validate_font_body_def read_file_def toy_TTFont_def
        output_path_def output_filename_def convert_font_def convert_font_body_def
        set_flavor_def toy_compile_def toy_tag_def getsize_def rename_def rmtree_def)
  show "let r = main toy_world
        \<lparr>url = ''https://example.com/fonts/Demo.ttf?v=2'', output_format = Woff2,
         output_name = Some ''''\<rparr> fresh_fs
    in outcome r = Finished
       \<and> stdout r = [Set_output_str ''converted_file'' ''Demo.woff2'',
                      Set_output_nat ''input_size'' 8, Set_output_nat ''output_size'' 4]
       \<and> nodes (final r) [''work'', ''Demo.woff2''] = Some (File ''Zabc'')
       \<and> nodes (final r) [''work'', ''.woff2''] = None"
    by code_simp
qed

text \<open>
  Claim C6, amended.  Take a successful run whose \<^verbatim>\<open>--output-name\<close>, when it is given,
  has no \<open>/\<close>.  The bytes the writer made of the downloaded font are a file in the
  working directory under the output file name, and every other location outside the
  scratch directory is as it was before the run: the run leaves exactly this one file.
  The name is the output name, a dot and the format when the output name is given and
  not empty, and the base name of the download, a dot and the format otherwise; for the
  output name \<open>foo\<close> and the format \<open>woff2\<close> it is \<open>foo.woff2\<close>, whatever the URL.
\<close>

theorem published_file:
  assumes "outcome (main w a fs0) = Finished"
    and "\<forall>n. output_name a = Some n \<longrightarrow> CHR ''/'' \<notin> set n"
  shows "(\<exists>status body font b.
            requests_get w (url a) = Response status body True
          \<and> TTFont w (concat body) = Inr font
          \<and> compile w (set_flavor (output_format a) font) = Inr b
          \<and> nodes (final (main w a fs0)) (cwd fs0 @ [output_filename a]) = Some (File b))
     \<and> (\<forall>l. l \<noteq> cwd fs0 @ [output_filename a] \<and> \<not> prefix (cwd fs0 @ [temp_dir]) l
            \<longrightarrow> nodes (final (main w a fs0)) l = nodes fs0 l)
     \<and> (\<forall>n. output_name a = Some n \<and> n \<noteq> []
            \<longrightarrow> output_filename a = n @ ''.'' @ format_tag (output_format a))
     \<and> (output_name a = None \<or> output_name a = Some []
            \<longrightarrow> output_filename a =
                fst (splitext (input_filename (url a))) @ ''.'' @ format_tag (output_format a))
     \<and> (output_name a = Some ''foo'' \<and> output_format a = Woff2
            \<longrightarrow> output_filename a = ''foo.woff2'')"
proof -
  from assms(2) have plain: "CHR ''/'' \<notin> set (output_filename a)"
    by (intro output_filename_no_sep) simp
  have T: "\<not> prefix (cwd fs0 @ [temp_dir]) (cwd fs0 @ [output_filename a])"
    using output_filename_plain(4) [of a] by simp
  from assms(1) plain obtain status body font b where
    "requests_get w (url a) = Response status body True"
    "TTFont w (concat body) = Inr font"
    "compile w (set_flavor (output_format a) font) = Inr b"
    and n: "nodes (final (main w a fs0)) =
          (\<lambda>l. if prefix (cwd fs0 @ [temp_dir]) l then None
               else if l = cwd fs0 @ [output_filename a] then Some (File b)
               else nodes fs0 l)"
    by (rule successful_run)
  then have "\<exists>status body font b.
            requests_get w (url a) = Response status body True
          \<and> TTFont w (concat body) = Inr font
          \<and> compile w (set_flavor (output_format a) font) = Inr b
          \<and> nodes (final (main w a fs0)) (cwd fs0 @ [output_filename a]) = Some (File b)"
    using T by auto
  moreover have "\<forall>l. l \<noteq> cwd fs0 @ [output_filename a] \<and> \<not> prefix (cwd fs0 @ [temp_dir]) l
            \<longrightarrow> nodes (final (main w a fs0)) l = nodes fs0 l"
    by (simp add: n)
  moreover have "\<forall>n. output_name a = Some n \<and> n \<noteq> []
            \<longrightarrow> output_filename a = n @ ''.'' @ format_tag (output_format a)"
    by (simp add: output_filename_def)
  moreover have "output_name a = None \<or> output_name a = Some []
            \<longrightarrow> output_filename a =
                fst (splitext (input_filename (url a))) @ ''.'' @ format_tag (output_format a)"
    by (auto simp: output_filename_def)
  moreover have "output_name a = Some ''foo'' \<and> output_format a = Woff2
            \<longrightarrow> output_filename a = ''foo.woff2''"
    by (simp add: output_filename_def)
  ultimately show ?thesis by blast
qed

text \<open>
  The witness of claim C6: the run for \<open>foo\<close> and \<open>woff2\<close> leaves \<open>/work/foo.woff2\<close>
  with the converted bytes and creates nothing else in the working directory.
\<close>

theorem published_file_witness:
  "outcome (main toy_world
      \<lparr>url = ''https://example.com/fonts/Demo.ttf?v=2'', output_format = Woff2,
       output_name = Some ''foo''\<rparr> fresh_fs) = Finished
   \<and> nodes (final (main toy_world
      \<lparr>url = ''https://example.com/fonts/Demo.ttf?v=2'', output_format = Woff2,
       output_name = Some ''foo''\<rparr> fresh_fs)) [''work'', ''foo.woff2''] = Some (File ''Zabc'')
   \<and> nodes (final (main toy_world
      \<lparr>url = ''https://example.com/fonts/Demo.ttf?v=2'', output_format = Woff2,
       output_name = Some ''foo''\<rparr> fresh_fs)) [''work'', ''notes.txt''] = None"
proof -
  let ?a = "\<lparr>url = ''https://example.com/fonts/Demo.ttf?v=2'', output_format = Woff2,
       output_name = Some ''foo''\<rparr>"
  have f: "outcome (main toy_world ?a fresh_fs) = Finished"
    by code_simp
  have s: "\<forall>n. output_name ?a = Some n \<longrightarrow> CHR ''/'' \<notin> set n"
    by simp
  have o: "output_filename ?a = ''foo.woff2''"
    by (simp add: output_filename_def)
  note t = published_file [OF f s, unfolded o]
  from t obtain status body font b where
    "requests_get toy_world (url ?a) = Response status body True"
    "TTFont toy_world (concat body) = Inr font"
    "compile toy_world (set_flavor (output_format ?a) font) = Inr b"
    and n: "nodes (final (main toy_world ?a fresh_fs)) (cwd fresh_fs @ [''foo.woff2'']) = Some (File b)"
    by blast
  then have "b = ''Zabc''"
    by (auto simp: toy_world_def toy_get_def toy_TTFont_def toy_compile_def toy_tag_def
        set_flavor_def)
  with n have 1: "nodes (final (main toy_world ?a fresh_fs)) [''work'', ''foo.woff2''] = Some (File ''Zabc'')"
    by (simp add: fresh_fs_def)
  from t have "[''work'', ''notes.txt''] \<noteq> cwd fresh_fs @ [''foo.woff2'']
        \<and> \<not> prefix (cwd fresh_fs @ [temp_dir]) [''work'', ''notes.txt'']
      \<longrightarrow> nodes (final (main toy_world ?a fresh_fs)) [''work'', ''notes.txt'']
          = nodes fresh_fs [''work'', ''notes.txt'']"
    by blast
  then have 2: "nodes (final (main toy_world ?a fresh_fs)) [''work'', ''notes.txt''] = None"
    by (simp add: fresh_fs_def temp_dir_def)
  from f 1 2 show ?thesis by blast
qed

text \<open>
  Claim C7.  The reported input size is not always the size of the downloaded file.
  The URL delivers 8 bytes as \<open>Demo.ttf\<close>; the target \<open>ttf\<close> without an output name
  makes the output path the input path; the conversion overwrites the download with 4
  bytes, and the run reports an input size of 4 and a ratio of 0 percent.
\<close>

theorem same_name_input_size:
  "(let r = main toy_world
        \<lparr>url = ''https://example.com/fonts/Demo.ttf?v=2'', output_format = Ttf, output_name = None\<rparr>
        fresh_fs
    in toy_get ''https://example.com/fonts/Demo.ttf?v=2'' = Response 200 [''Tab'', ''c.pad''] True
       \<and> length (concat [''Tab'', ''c.pad'']) = 8
       \<and> input_path \<lparr>url = ''https://example.com/fonts/Demo.ttf?v=2'', output_format = Ttf,
            output_name = None\<rparr> = ''temp_fonts/Demo.ttf''
       \<and> output_path \<lparr>url = ''https://example.com/fonts/Demo.ttf?v=2'', output_format = Ttf,
            output_name = None\<rparr> = ''temp_fonts/Demo.ttf''
       \<and> outcome r = Finished
       \<and> report r = [Info_done, Info_input ''Demo.ttf'' 4, Info_output ''Demo.ttf'' 4,
                      Info_ratio_percent 0]
       \<and> stdout r = [Set_output_str ''converted_file'' ''Demo.ttf'',
                      Set_output_nat ''input_size'' 4, Set_output_nat ''output_size'' 4])"
  by code_simp

end
